theory Spec2Isabelle
  imports Main "HOL-Library.Char_ord" "HOL-Library.List_Lexorder"
begin

section \<open>Casa Rubia: room catalog, reservation store and client\<close>

text \<open>
  The development embeds \<^verbatim>\<open>server.js\<close> (the Express handlers and the SQL they run on
  the \<^verbatim>\<open>reservations\<close> table) and the rooms page of \<^verbatim>\<open>script.js\<close>.

  Strings are byte strings (UTF-8), which is how SQLite stores \<^verbatim>\<open>TEXT\<close> and how its
  default \<^verbatim>\<open>BINARY\<close> collation compares it: byte by byte, a proper prefix being smaller.
  That is the order \<open>\<le>\<close> of \<^typ>\<open>string\<close> given by the lexicographic order on lists
  over the order of characters by their code.
\<close>

subsection \<open>The room catalog\<close>

record room =
  id_room :: int
  name_room :: string
  type_room :: string
  ac :: bool
  price :: int
  capacity :: int

definition o_acute :: string where
  "o_acute = [CHR 0xC3, CHR 0xB3]"

definition a_acute :: string where
  "a_acute = [CHR 0xC3, CHR 0xA1]"

definition Habitacion :: "string \<Rightarrow> string" where
  "Habitacion n = ''Habitaci'' @ o_acute @ ''n '' @ n"

definition rooms :: "room list" where
  "rooms =
   [\<lparr>id_room = 1, name_room = Habitacion ''1'', type_room = ''Con ventilador'', ac = False, price = 30000, capacity = 2\<rparr>,
    \<lparr>id_room = 2, name_room = Habitacion ''2'', type_room = ''Con ventilador'', ac = False, price = 30000, capacity = 2\<rparr>,
    \<lparr>id_room = 3, name_room = Habitacion ''3'', type_room = ''Con ventilador'', ac = False, price = 30000, capacity = 2\<rparr>,
    \<lparr>id_room = 4, name_room = Habitacion ''4'', type_room = ''Con ventilador'', ac = False, price = 30000, capacity = 2\<rparr>,
    \<lparr>id_room = 5, name_room = Habitacion ''5'', type_room = ''Con ventilador'', ac = False, price = 30000, capacity = 2\<rparr>,
    \<lparr>id_room = 6, name_room = Habitacion ''6'', type_room = ''Con ventilador'', ac = False, price = 30000, capacity = 2\<rparr>,
    \<lparr>id_room = 7, name_room = Habitacion ''7'', type_room = ''Con aire acondicionado'', ac = True, price = 60000, capacity = 2\<rparr>,
    \<lparr>id_room = 8, name_room = Habitacion ''8'', type_room = ''Con aire acondicionado'', ac = True, price = 60000, capacity = 2\<rparr>,
    \<lparr>id_room = 9, name_room = Habitacion ''9'', type_room = ''Con aire acondicionado'', ac = True, price = 60000, capacity = 2\<rparr>,
    \<lparr>id_room = 10, name_room = Habitacion ''10'', type_room = ''Con aire acondicionado'', ac = True, price = 60000, capacity = 2\<rparr>,
    \<lparr>id_room = 11, name_room = Habitacion ''11'', type_room = ''Con aire acondicionado'', ac = True, price = 60000, capacity = 2\<rparr>,
    \<lparr>id_room = 12, name_room = Habitacion ''12'', type_room = ''Con aire acondicionado'', ac = True, price = 60000, capacity = 2\<rparr>]"

subsection \<open>The reservations table\<close>

text \<open>
  A row of \<^verbatim>\<open>reservations\<close>: \<^verbatim>\<open>id INTEGER PRIMARY KEY AUTOINCREMENT\<close>, \<^verbatim>\<open>roomId INTEGER\<close>
  and six \<^verbatim>\<open>TEXT\<close> columns, all \<^verbatim>\<open>NOT NULL\<close>.
\<close>

record reservation =
  id_row :: int
  roomId :: int
  name :: string
  email :: string
  phone :: string
  checkIn :: string
  checkOut :: string
  created :: string

text \<open>
  The state of the server process: the module-level array \<^verbatim>\<open>rooms\<close>, the rows of the
  table in the order a scan returns them, and the counter that \<^verbatim>\<open>AUTOINCREMENT\<close> keeps in
  \<^verbatim>\<open>sqlite_sequence\<close> (the largest row id the table has ever held).
\<close>

record server =
  catalog :: "room list"
  reservations :: "reservation list"
  sqlite_sequence :: int

text \<open>
  What one exchange takes from its environment: whether the request is lost on the way
  (\<^verbatim>\<open>fetch\<close> rejects), whether the database reports an error (an I/O failure, a full
  disk, a locked file), whether that error arises already while the statement is prepared
  rather than while it runs, and the value of \<^verbatim>\<open>datetime('now')\<close>.
\<close>

record env =
  network_down :: bool
  db_error :: bool
  error_in_prepare :: bool
  datetime_now :: string

subsection \<open>Requests and responses\<close>

text \<open>
  \<^verbatim>\<open>req.query\<close> and \<^verbatim>\<open>req.body\<close>, with the fields the handlers destructure. A field that is
  absent (or \<^verbatim>\<open>null\<close>) is \<open>None\<close> here; a field that is present has the type of its
  column (an integer for \<^verbatim>\<open>roomId\<close>, a string for the others).
\<close>

record query_params =
  checkIn_query :: "string option"
  checkOut_query :: "string option"

record json_body =
  roomId_body :: "int option"
  name_body :: "string option"
  email_body :: "string option"
  phone_body :: "string option"
  checkIn_body :: "string option"
  checkOut_body :: "string option"

datatype http_method = GET | POST

record request =
  http_method :: http_method
  path :: string
  query :: query_params
  body :: json_body

datatype payload =
    Rooms_json "room list"
  | Rows_json "reservation list"
  | Id_json int
  | Error_json string
  | Html_page

text \<open>
  A response with its status and payload, or none at all: the handler never answers when
  the process exits on an uncaught error.
\<close>

datatype response = Response nat payload | No_response

text \<open>JavaScript's \<^verbatim>\<open>!v\<close>: \<^verbatim>\<open>undefined\<close>, \<^verbatim>\<open>0\<close> and the empty string are falsy.\<close>

definition falsy_number :: "int option \<Rightarrow> bool" where
  "falsy_number v = (case v of None \<Rightarrow> True | Some n \<Rightarrow> n = 0)"

definition falsy_string :: "string option \<Rightarrow> bool" where
  "falsy_string v = (case v of None \<Rightarrow> True | Some s \<Rightarrow> s = [])"

subsection \<open>GET /api/rooms\<close>

definition get_rooms :: "server \<Rightarrow> response \<times> server" where
  "get_rooms s = (Response 200 (Rooms_json (catalog s)), s)"

subsection \<open>GET /api/reservations\<close>

text \<open>The two statements the handler can build, and the \<^verbatim>\<open>WHERE\<close> clause of the second.\<close>

datatype sql = Select_all | Select_overlap

definition overlap_where :: "string \<Rightarrow> string \<Rightarrow> reservation \<Rightarrow> bool" where
  "overlap_where p1 p2 r = (\<not> (checkOut r \<le> p1 \<or> checkIn r \<ge> p2))"

fun build_select :: "string option \<Rightarrow> string option \<Rightarrow> sql \<times> string list" where
  "build_select (Some a) (Some b) =
     (if a \<noteq> [] \<and> b \<noteq> [] then (Select_overlap, [a, b]) else (Select_all, []))"
| "build_select _ _ = (Select_all, [])"

fun db_all :: "env \<Rightarrow> sql \<Rightarrow> string list \<Rightarrow> reservation list \<Rightarrow> unit + reservation list" where
  "db_all e Select_all [] t = (if db_error e then Inl () else Inr t)"
| "db_all e Select_overlap [p1, p2] t =
     (if db_error e then Inl () else Inr (filter (overlap_where p1 p2) t))"
| "db_all e _ _ t = Inl ()"

definition get_reservations :: "env \<Rightarrow> query_params \<Rightarrow> server \<Rightarrow> response \<times> server" where
  "get_reservations e q s =
     (case build_select (checkIn_query q) (checkOut_query q) of (stmt, params) \<Rightarrow>
        (case db_all e stmt params (reservations s) of
           Inl err \<Rightarrow> (Response 500 (Error_json ''Database error''), s)
         | Inr rows \<Rightarrow> (Response 200 (Rows_json rows), s)))"

subsection \<open>POST /api/reservations\<close>

text \<open>
  The row id \<^verbatim>\<open>AUTOINCREMENT\<close> chooses: one more than the largest id in the table (1 when
  the table is empty), and at least one more than the counter. Ids are unbounded here; a
  table that has used up the 64-bit ids makes the statement fail, which is a database
  error of the environment.
\<close>

definition next_rowid :: "server \<Rightarrow> int" where
  "next_rowid s =
     (let v = (if reservations s = [] then 1 else Max (set (map id_row (reservations s))) + 1)
      in if v < sqlite_sequence s + 1 then sqlite_sequence s + 1 else v)"

text \<open>
  \<^verbatim>\<open>db.prepare\<close> is called without a callback. When preparing fails, the statement emits
  an \<^verbatim>\<open>error\<close> event that has no listener: the callback of \<^verbatim>\<open>stmt.run\<close> is never
  called, no response is sent and the process exits.
\<close>

definition db_prepare :: "env \<Rightarrow> bool" where
  "db_prepare e = (\<not> (db_error e \<and> error_in_prepare e))"

text \<open>
  \<^verbatim>\<open>stmt.run\<close> of the \<^verbatim>\<open>INSERT\<close>: an \<^verbatim>\<open>undefined\<close> parameter is bound as \<^verbatim>\<open>NULL\<close>, which
  \<^verbatim>\<open>NOT NULL\<close> rejects; a failed statement leaves the table as it was. On success the
  callback sees the new row id as \<^verbatim>\<open>this.lastID\<close>.
\<close>

definition stmt_run :: "env \<Rightarrow> json_body \<Rightarrow> server \<Rightarrow> unit + (int \<times> server)" where
  "stmt_run e b s =
     (if db_error e then Inl ()
      else case (roomId_body b, name_body b, email_body b, phone_body b, checkIn_body b, checkOut_body b) of
        (Some r, Some n, Some m, Some p, Some ci, Some co) \<Rightarrow>
          (let k = next_rowid s in
           Inr (k, s\<lparr>reservations := reservations s @
                        [\<lparr>id_row = k, roomId = r, name = n, email = m, phone = p,
                          checkIn = ci, checkOut = co, created = datetime_now e\<rparr>],
                     sqlite_sequence := k\<rparr>))
      | _ \<Rightarrow> Inl ())"

text \<open>
  \<^verbatim>\<open>this.lastID\<close> is a JavaScript number: the 64-bit row id converted to the nearest
  double, ties going to the even significand. \<open>bits n\<close> is the length of \<open>n\<close> in binary;
  doubles have 53 significant bits.
\<close>

fun bits :: "nat \<Rightarrow> nat" where
  "bits n = (if n = 0 then 0 else Suc (bits (n div 2)))"

definition js_number :: "int \<Rightarrow> int" where
  "js_number k =
     (let n = nat \<bar>k\<bar>; u = 2 ^ (bits n - 53); q = n div u; r = n mod u;
          q' = (if 2 * r < u then q else if u < 2 * r then q + 1 else if even q then q else q + 1)
      in sgn k * int (q' * u))"

definition post_reservations :: "env \<Rightarrow> json_body \<Rightarrow> server \<Rightarrow> response \<times> server" where
  "post_reservations e b s =
     (if falsy_number (roomId_body b) \<or> falsy_string (name_body b) \<or> falsy_string (email_body b)
         \<or> falsy_string (phone_body b) \<or> falsy_string (checkIn_body b) \<or> falsy_string (checkOut_body b)
      then (Response 400 (Error_json ''Datos incompletos''), s)
      else if \<not> db_prepare e then (No_response, s)
      else (case stmt_run e b s of
              Inl err \<Rightarrow> (Response 500 (Error_json ''Error al guardar la reserva''), s)
            | Inr (lastID, s') \<Rightarrow> (Response 200 (Id_json (js_number lastID)), s')))"

text \<open>The guard of the handler, and the overlap of two stays as the query tests it.\<close>

definition incomplete :: "json_body \<Rightarrow> bool" where
  "incomplete b =
     (falsy_number (roomId_body b) \<or> falsy_string (name_body b) \<or> falsy_string (email_body b)
      \<or> falsy_string (phone_body b) \<or> falsy_string (checkIn_body b) \<or> falsy_string (checkOut_body b))"

definition overlapping :: "string \<Rightarrow> string \<Rightarrow> string \<Rightarrow> string \<Rightarrow> bool" where
  "overlapping ci1 co1 ci2 co2 = (\<not> (co1 \<le> ci2 \<or> ci1 \<ge> co2))"

text \<open>A row holds the values of a request body.\<close>

definition stores :: "reservation \<Rightarrow> json_body \<Rightarrow> bool" where
  "stores r b =
     (roomId_body b = Some (roomId r) \<and> name_body b = Some (name r) \<and> email_body b = Some (email r)
      \<and> phone_body b = Some (phone r) \<and> checkIn_body b = Some (checkIn r)
      \<and> checkOut_body b = Some (checkOut r))"

subsection \<open>The application\<close>

text \<open>
  The three routes; a request that matches none of them gets Express's 404 page, which is
  HTML. Paths are taken as Express has normalised them. Once the process has exited, no
  later request is answered.
\<close>

definition app :: "env \<Rightarrow> request \<Rightarrow> server \<Rightarrow> response \<times> server" where
  "app e req s =
     (if http_method req = GET \<and> path req = ''/api/rooms'' then get_rooms s
      else if http_method req = GET \<and> path req = ''/api/reservations'' then get_reservations e (query req) s
      else if http_method req = POST \<and> path req = ''/api/reservations'' then post_reservations e (body req) s
      else (Response 404 Html_page, s))"

fun serve :: "server \<Rightarrow> (env \<times> request) list \<Rightarrow> response list \<times> server" where
  "serve s [] = ([], s)"
| "serve s ((e, req) # rest) =
     (case app e req s of (resp, s') \<Rightarrow>
        if resp = No_response then (map (\<lambda>x. No_response) ((e, req) # rest), s')
        else (case serve s' rest of (resps, s'') \<Rightarrow> (resp # resps, s'')))"

section \<open>The rooms page\<close>

subsection \<open>Dates\<close>

text \<open>
  The two date pickers hold either nothing (their \<^verbatim>\<open>value\<close> is the empty string) or a
  calendar date, whose \<^verbatim>\<open>value\<close> is the string \<^verbatim>\<open>YYYY-MM-DD\<close>. \<^verbatim>\<open>new Date(value)\<close> is
  Invalid Date for the empty string and the UTC midnight of the day otherwise, so a valid
  \<^verbatim>\<open>Date\<close> object of this page is modelled by its calendar date. \<^verbatim>\<open>Date\<close> objects compare
  by time value, which orders UTC midnights as the calendar orders days. The strings
  \<open>date_value\<close> and \<open>toISOString\<close> are those of the browser for years up to 9999.
\<close>

record date =
  year :: nat
  month :: nat
  day :: nat


definition date_le :: "date \<Rightarrow> date \<Rightarrow> bool" where
  "date_le d1 d2 =
     (year d1 < year d2 \<or> year d1 = year d2 \<and>
       (month d1 < month d2 \<or> month d1 = month d2 \<and> day d1 \<le> day d2))"


definition digit :: "nat \<Rightarrow> char" where
  "digit n = char_of (48 + n)"

definition pad2 :: "nat \<Rightarrow> string" where
  "pad2 n = [digit (n div 10 mod 10), digit (n mod 10)]"

definition pad4 :: "nat \<Rightarrow> string" where
  "pad4 n = pad2 (n div 100) @ pad2 (n mod 100)"

definition date_value :: "date \<Rightarrow> string" where
  "date_value d = pad4 (year d) @ ''-'' @ pad2 (month d) @ ''-'' @ pad2 (day d)"

definition input_value :: "date option \<Rightarrow> string" where
  "input_value v = (case v of None \<Rightarrow> [] | Some d \<Rightarrow> date_value d)"

definition toISOString :: "date \<Rightarrow> string" where
  "toISOString d = date_value d @ ''T00:00:00.000Z''"

subsection \<open>The availability column\<close>

record cell =
  textContent :: string
  className :: string

definition paint_all :: "string \<Rightarrow> string \<Rightarrow> (int \<times> cell) list" where
  "paint_all t c = map (\<lambda>room. (id_room room, \<lparr>textContent = t, className = c\<rparr>)) rooms"

definition no_body :: json_body where
  "no_body = \<lparr>roomId_body = None, name_body = None, email_body = None, phone_body = None,
              checkIn_body = None, checkOut_body = None\<rparr>"

definition no_query :: query_params where
  "no_query = \<lparr>checkIn_query = None, checkOut_query = None\<rparr>"

text \<open>
  The request \<^verbatim>\<open>updateAvailability\<close> sends: the URL is the origin followed by the query
  string, so its path is \<^verbatim>\<open>/\<close>.
\<close>

definition availability_request :: "date \<Rightarrow> date \<Rightarrow> request" where
  "availability_request ci co =
     \<lparr>http_method = GET, path = ''/'',
      query = \<lparr>checkIn_query = Some (toISOString ci), checkOut_query = Some (toISOString co)\<rparr>,
      body = no_body\<rparr>"

text \<open>
  The \<^verbatim>\<open>try\<close> block after the response has arrived. \<^verbatim>\<open>response.json()\<close> rejects for a
  body that is not JSON, and \<^verbatim>\<open>reservations.some\<close> throws for a value that is not an
  array; both end in the \<^verbatim>\<open>catch\<close> block, as does a \<^verbatim>\<open>fetch\<close> that gets no response.
  The elements of the rooms array have no \<^verbatim>\<open>roomId\<close>, so they conflict with no room.
\<close>

fun paint_response :: "response \<Rightarrow> (int \<times> cell) list" where
  "paint_response (Response st (Rows_json rs)) =
     map (\<lambda>room.
           (let conflict = list_ex (\<lambda>res. roomId res = id_room room) rs;
                available = \<not> conflict
            in (id_room room,
                \<lparr>textContent = (if available then ''Disponible'' else ''No disponible''),
                 className = (if available then ''availability available'' else ''availability unavailable'')\<rparr>)))
         rooms"
| "paint_response (Response st (Rooms_json rms)) = paint_all ''Disponible'' ''availability available''"
| "paint_response (Response st p) = paint_all ''Error'' ''availability unavailable''"
| "paint_response No_response = paint_all ''Error'' ''availability unavailable''"

text \<open>
  \<^verbatim>\<open>updateAvailability\<close>: the cells it paints (none when it returns at once), the requests
  it sends, and the server after them.
\<close>

definition updateAvailability ::
  "env \<Rightarrow> server \<Rightarrow> date option \<Rightarrow> date option \<Rightarrow> (int \<times> cell) list \<times> request list \<times> server" where
  "updateAvailability e srv checkInInput checkOutInput =
     (case (checkInInput, checkOutInput) of
        (Some checkInDate, Some checkOutDate) \<Rightarrow>
          if date_le checkOutDate checkInDate
          then (paint_all (''Fechas no v'' @ a_acute @ ''lidas'') ''availability unavailable'', [], srv)
          else if network_down e
          then (paint_all ''Error'' ''availability unavailable'', [], srv)
          else (case app e (availability_request checkInDate checkOutDate) srv of
                  (resp, srv') \<Rightarrow>
                    (paint_response resp, [availability_request checkInDate checkOutDate], srv'))
      | _ \<Rightarrow> ([], [], srv))"

text \<open>
  The request the refresh would send if its URL named the route of the reservations
  query, as the URL of the submit handler does, and the two cells the \<^verbatim>\<open>try\<close> block paints.
\<close>

definition intended_request :: "date \<Rightarrow> date \<Rightarrow> request" where
  "intended_request ci co = (availability_request ci co)\<lparr>path := ''/api/reservations''\<rparr>"

definition available_cell :: cell where
  "available_cell = \<lparr>textContent = ''Disponible'', className = ''availability available''\<rparr>"

definition unavailable_cell :: cell where
  "unavailable_cell = \<lparr>textContent = ''No disponible'', className = ''availability unavailable''\<rparr>"

subsection \<open>The reservation modal\<close>

record modal =
  modalRoomName :: string
  modalRoomType :: string
  modalRoomPrice :: string
  formRoomId :: int
  formCheckIn :: string
  formCheckOut :: string

datatype modal_result = Alert string | Show_modal modal | TypeError

text \<open>
  \<^verbatim>\<open>openReservationModal\<close>; \<^verbatim>\<open>formatCOP\<close> is a parameter (it is \<^verbatim>\<open>Intl.NumberFormat\<close>). A
  comparison with Invalid Date is false.
\<close>

definition openReservationModal ::
  "(int \<Rightarrow> string) \<Rightarrow> date option \<Rightarrow> date option \<Rightarrow> int \<Rightarrow> modal_result" where
  "openReservationModal formatCOP checkInInput checkOutInput room_id =
     (if input_value checkInInput = [] \<or> input_value checkOutInput = []
         \<or> (case (checkInInput, checkOutInput) of
               (Some checkInDate, Some checkOutDate) \<Rightarrow> date_le checkOutDate checkInDate
             | _ \<Rightarrow> False)
      then Alert (''Por favor seleccione una fecha de entrada y salida v'' @ a_acute @ ''lida antes de reservar.'')
      else (case find (\<lambda>r. id_room r = room_id) rooms of
              None \<Rightarrow> TypeError
            | Some room \<Rightarrow>
                Show_modal \<lparr>modalRoomName = name_room room, modalRoomType = type_room room,
                            modalRoomPrice = formatCOP (price room), formRoomId = id_room room,
                            formCheckIn = input_value checkInInput,
                            formCheckOut = input_value checkOutInput\<rparr>))"

subsection \<open>Submitting the form\<close>









subsection \<open>A scenario\<close>

text \<open>
  The server after startup on an empty database file, an environment in which nothing
  fails, and a booking of room 1 from 2024-06-01 to 2024-06-03.
\<close>

definition startup :: server where
  "startup = \<lparr>catalog = rooms, reservations = [], sqlite_sequence = 0\<rparr>"

definition env_ok :: env where
  "env_ok = \<lparr>network_down = False, db_error = False, error_in_prepare = False,
             datetime_now = ''2024-05-20 12:00:00''\<rparr>"

definition june_stay :: json_body where
  "june_stay = \<lparr>roomId_body = Some 1, name_body = Some ''Ana'', email_body = Some ''ana@example.com'',
                phone_body = Some ''3001234567'', checkIn_body = Some ''2024-06-01'',
                checkOut_body = Some ''2024-06-03''\<rparr>"

definition second_stay :: json_body where
  "second_stay = \<lparr>roomId_body = Some 1, name_body = Some ''Luis'', email_body = Some ''luis@example.com'',
                  phone_body = Some ''3109876543'', checkIn_body = Some ''2024-06-02'',
                  checkOut_body = Some ''2024-06-04''\<rparr>"

definition post_request :: "json_body \<Rightarrow> request" where
  "post_request b = \<lparr>http_method = POST, path = ''/api/reservations'', query = no_query, body = b\<rparr>"

definition june_row :: reservation where
  "june_row = \<lparr>id_row = 1, roomId = 1, name = ''Ana'', email = ''ana@example.com'',
               phone = ''3001234567'', checkIn = ''2024-06-01'', checkOut = ''2024-06-03'',
               created = ''2024-05-20 12:00:00''\<rparr>"

definition june_server :: server where
  "june_server = \<lparr>catalog = rooms, reservations = [june_row], sqlite_sequence = 1\<rparr>"

text \<open>
  A table whose largest id is \<open>2 ^ 53\<close>, two bodies that name room 0, and a table that
  holds timestamps.
\<close>

definition big_row :: reservation where
  "big_row = june_row\<lparr>id_row := 9007199254740992\<rparr>"

definition big_server :: server where
  "big_server = \<lparr>catalog = rooms, reservations = [big_row], sqlite_sequence = 9007199254740992\<rparr>"

definition zero_stay :: json_body where
  "zero_stay = june_stay\<lparr>roomId_body := Some 0\<rparr>"

definition zero_second_stay :: json_body where
  "zero_second_stay = second_stay\<lparr>roomId_body := Some 0\<rparr>"




section \<open>The overlap query\<close>

lemma build_select_falsy:
  "falsy_string ci \<or> falsy_string co \<Longrightarrow> build_select ci co = (Select_all, [])"
  by (cases ci; cases co) (auto simp: falsy_string_def)

lemma filter_overlap_where:
  "filter (overlap_where a b) t = filter (\<lambda>r. \<not> (checkOut r \<le> a \<or> checkIn r \<ge> b)) t"
  by (induction t) (auto simp: overlap_where_def)

lemma get_reservations_filtered:
  "a \<noteq> [] \<Longrightarrow> b \<noteq> [] \<Longrightarrow> \<not> db_error e \<Longrightarrow>
   get_reservations e \<lparr>checkIn_query = Some a, checkOut_query = Some b\<rparr> s
     = (Response 200 (Rows_json (filter (overlap_where a b) (reservations s))), s)"
  by (simp add: get_reservations_def)

text \<open>
  C1. With both parameters supplied (non-empty strings \<open>a\<close> and \<open>b\<close> with \<open>a < b\<close>) and the
  database answering, the reservations query returns status 200 with exactly the stored
  rows \<open>r\<close> for which \<open>\<not> (checkOut r \<le> a \<or> checkIn r \<ge> b)\<close> holds, in stored order, and
  leaves the state as it was. A row whose \<open>checkOut\<close> equals \<open>a\<close>, or whose \<open>checkIn\<close>
  equals \<open>b\<close>, is not among the rows returned.
\<close>

theorem query_returns_overlapping:
  assumes "a \<noteq> []" and "a < b" and "\<not> db_error e"
  shows "\<exists>rows. get_reservations e \<lparr>checkIn_query = Some a, checkOut_query = Some b\<rparr> s
                  = (Response 200 (Rows_json rows), s)
           \<and> rows = filter (\<lambda>r. \<not> (checkOut r \<le> a \<or> checkIn r \<ge> b)) (reservations s)
           \<and> (\<forall>r. checkOut r = a \<or> checkIn r = b \<longrightarrow> r \<notin> set rows)"
proof -
  from assms(2) have "b \<noteq> []" by auto
  with assms(1,3) have "get_reservations e \<lparr>checkIn_query = Some a, checkOut_query = Some b\<rparr> s
      = (Response 200 (Rows_json (filter (\<lambda>r. \<not> (checkOut r \<le> a \<or> checkIn r \<ge> b)) (reservations s))), s)"
    by (simp add: get_reservations_filtered filter_overlap_where)
  then show ?thesis by auto
qed

theorem query_returns_overlapping_witness:
  "''2024-06-02'' \<noteq> [] \<and> ''2024-06-02'' < ''2024-06-04'' \<and> \<not> db_error env_ok \<and>
   (\<exists>rows. get_reservations env_ok
              \<lparr>checkIn_query = Some ''2024-06-02'', checkOut_query = Some ''2024-06-04''\<rparr> june_server
            = (Response 200 (Rows_json rows), june_server)
      \<and> rows = filter (\<lambda>r. \<not> (checkOut r \<le> ''2024-06-02'' \<or> checkIn r \<ge> ''2024-06-04''))
                 (reservations june_server)
      \<and> (\<forall>r. checkOut r = ''2024-06-02'' \<or> checkIn r = ''2024-06-04'' \<longrightarrow> r \<notin> set rows))"
  using query_returns_overlapping [of "''2024-06-02''" "''2024-06-04''" env_ok june_server]
  by (simp add: env_ok_def)

text \<open>
  C10. When a parameter is not supplied or is the empty string, the handler answers as it
  does with no parameters at all: no filter is applied, and when the database answers,
  every stored row is returned.
\<close>

theorem missing_parameter_returns_all:
  assumes "ci = None \<or> co = None \<or> ci = Some [] \<or> co = Some []"
  shows "get_reservations e \<lparr>checkIn_query = ci, checkOut_query = co\<rparr> s
           = get_reservations e no_query s
         \<and> (\<not> db_error e \<longrightarrow>
              get_reservations e \<lparr>checkIn_query = ci, checkOut_query = co\<rparr> s
                = (Response 200 (Rows_json (reservations s)), s))"
proof -
  from assms have "falsy_string ci \<or> falsy_string co"
    by (auto simp: falsy_string_def)
  then have "build_select ci co = (Select_all, [])"
    by (rule build_select_falsy)
  then show ?thesis
    by (simp add: get_reservations_def no_query_def)
qed

theorem missing_parameter_returns_all_witness:
  "(Some ''2024-06-02'' = None \<or> (None :: string option) = None
      \<or> Some ''2024-06-02'' = Some [] \<or> (None :: string option) = Some [])
   \<and> \<not> db_error env_ok
   \<and> get_reservations env_ok \<lparr>checkIn_query = Some ''2024-06-02'', checkOut_query = None\<rparr> june_server
       = get_reservations env_ok no_query june_server
   \<and> get_reservations env_ok \<lparr>checkIn_query = Some ''2024-06-02'', checkOut_query = None\<rparr> june_server
       = (Response 200 (Rows_json [june_row]), june_server)"
  using missing_parameter_returns_all [of "Some ''2024-06-02''" None env_ok june_server]
  by (auto simp: env_ok_def june_server_def)

section \<open>Row ids as JavaScript numbers\<close>

declare bits.simps [simp del]

lemma bits_le: "n < 2 ^ m \<Longrightarrow> bits n \<le> m"
proof (induction m arbitrary: n)
  case 0
  then show ?case by (simp add: bits.simps)
next
  case (Suc m)
  show ?case
  proof (cases "n = 0")
    case True
    then show ?thesis by (simp add: bits.simps)
  next
    case False
    from Suc.prems have "n div 2 < 2 ^ m" by simp
    then have "bits (n div 2) \<le> m" by (rule Suc.IH)
    with False show ?thesis by (subst bits.simps) simp
  qed
qed

lemma bits_power: "bits (2 ^ m) = Suc m"
proof (induction m)
  case 0
  then show ?case by (simp add: bits.simps)
next
  case (Suc m)
  then show ?case by (subst bits.simps) simp
qed

lemma bits_eq: "2 ^ m \<le> n \<Longrightarrow> n < 2 ^ Suc m \<Longrightarrow> bits n = Suc m"
proof (induction m arbitrary: n)
  case 0
  then have "n = 1" by simp
  then show ?case by (simp add: bits.simps)
next
  case (Suc m)
  from Suc.prems have "2 ^ m \<le> n div 2" and "n div 2 < 2 ^ Suc m" by simp_all
  then have "bits (n div 2) = Suc m" by (rule Suc.IH)
  moreover from Suc.prems have "n \<noteq> 0" by auto
  ultimately show ?case by (subst bits.simps) simp
qed

lemma round_nat:
  fixes n u :: nat
  assumes "u = 1 \<or> (u = 2 \<and> even n)"
  shows "(let q = n div u; r = n mod u;
              q' = (if 2 * r < u then q else if u < 2 * r then q + 1 else if even q then q else q + 1)
          in q' * u) = n"
  using assms by (auto simp: Let_def)

lemma js_number_nat:
  assumes "n \<le> 2 ^ 53"
  shows "(let u = 2 ^ (bits n - 53); q = n div u; r = n mod u;
              q' = (if 2 * r < u then q else if u < 2 * r then q + 1 else if even q then q else q + 1)
          in q' * u) = n"
proof (cases "n = 2 ^ 53")
  case True
  have "bits n - 53 = 1" unfolding True bits_power by simp
  then have u: "(2::nat) ^ (bits n - 53) = 2" by simp
  have "even n" unfolding True by simp
  then have "(2::nat) = 1 \<or> ((2::nat) = 2 \<and> even n)" by simp
  from round_nat [OF this] show ?thesis
    unfolding u by (simp only: Let_def)
next
  case False
  with assms have "n < 2 ^ 53" by simp
  then have "bits n \<le> 53" by (rule bits_le)
  then have u: "(2::nat) ^ (bits n - 53) = 1" by simp
  have "(1::nat) = 1 \<or> ((1::nat) = 2 \<and> even n)" by simp
  from round_nat [OF this] show ?thesis
    unfolding u by (simp only: Let_def)
qed

lemma js_number_exact:
  assumes "\<bar>k\<bar> \<le> 2 ^ 53"
  shows "js_number k = k"
proof -
  from assms have "nat \<bar>k\<bar> \<le> 2 ^ 53"
    by (metis nat_le_iff of_nat_numeral of_nat_power)
  from js_number_nat [OF this] have "js_number k = sgn k * int (nat \<bar>k\<bar>)"
    by (simp only: js_number_def Let_def)
  then show ?thesis by (simp add: mult_sgn_abs)
qed

lemma js_number_rounds: "js_number (2 ^ 53 + 1) = 2 ^ 53"
proof -
  have "bits (2 ^ 53 + 1) = Suc 53"
    by (rule bits_eq) simp_all
  then have u: "(2::nat) ^ (bits (2 ^ 53 + 1) - 53) = 2" by simp
  have n: "nat \<bar>2 ^ 53 + 1\<bar> = 2 ^ 53 + 1"
    by (simp add: nat_add_distrib nat_power_eq)
  have d: "((2::nat) ^ 53 + 1) div 2 = 2 ^ 52" "((2::nat) ^ 53 + 1) mod 2 = 1"
    by simp_all
  show ?thesis
    unfolding js_number_def n Let_def u d by simp
qed

lemma js_number_small: "js_number 1 = 1" "js_number 2 = 2" "js_number 3 = 3"
  by (simp_all add: js_number_exact)

section \<open>Creating reservations\<close>

lemma next_rowid_greater:
  assumes "r \<in> set (reservations s)"
  shows "id_row r < next_rowid s"
proof -
  from assms have ne: "reservations s \<noteq> []" by auto
  from assms have "id_row r \<le> Max (set (map id_row (reservations s)))"
    by (intro Max_ge) auto
  with ne show ?thesis
    by (simp add: next_rowid_def Let_def)
qed

lemma incomplete_fields:
  "\<not> incomplete b \<Longrightarrow>
   \<exists>r n m p ci co. roomId_body b = Some r \<and> r \<noteq> 0 \<and> name_body b = Some n \<and> n \<noteq> []
     \<and> email_body b = Some m \<and> m \<noteq> [] \<and> phone_body b = Some p \<and> p \<noteq> []
     \<and> checkIn_body b = Some ci \<and> ci \<noteq> [] \<and> checkOut_body b = Some co \<and> co \<noteq> []"
  by (auto simp: incomplete_def falsy_number_def falsy_string_def split: option.splits)

lemma post_incomplete:
  "incomplete b \<Longrightarrow> post_reservations e b s = (Response 400 (Error_json ''Datos incompletos''), s)"
  by (simp add: post_reservations_def incomplete_def)

lemma post_prepare_error:
  "\<not> incomplete b \<Longrightarrow> db_error e \<Longrightarrow> error_in_prepare e \<Longrightarrow>
   post_reservations e b s = (No_response, s)"
  by (simp add: post_reservations_def incomplete_def db_prepare_def)

lemma post_run_error:
  "\<not> incomplete b \<Longrightarrow> db_error e \<Longrightarrow> \<not> error_in_prepare e \<Longrightarrow>
   post_reservations e b s = (Response 500 (Error_json ''Error al guardar la reserva''), s)"
  by (simp add: post_reservations_def incomplete_def db_prepare_def stmt_run_def)

lemma post_created:
  assumes "\<not> incomplete b" and "\<not> db_error e"
  shows "\<exists>row. post_reservations e b s =
           (Response 200 (Id_json (js_number (next_rowid s))),
            s\<lparr>reservations := reservations s @ [row], sqlite_sequence := next_rowid s\<rparr>)
         \<and> stores row b \<and> id_row row = next_rowid s \<and> created row = datetime_now e"
proof -
  from incomplete_fields [OF assms(1)] obtain r n m p ci co where
    "roomId_body b = Some r" "name_body b = Some n" "email_body b = Some m"
    "phone_body b = Some p" "checkIn_body b = Some ci" "checkOut_body b = Some co"
    by blast
  moreover from assms(1) have "\<not> (falsy_number (roomId_body b) \<or> falsy_string (name_body b)
      \<or> falsy_string (email_body b) \<or> falsy_string (phone_body b)
      \<or> falsy_string (checkIn_body b) \<or> falsy_string (checkOut_body b))"
    by (simp add: incomplete_def)
  ultimately show ?thesis using assms(2)
    by (intro exI [of _ "\<lparr>id_row = next_rowid s, roomId = r, name = n, email = m, phone = p,
                           checkIn = ci, checkOut = co, created = datetime_now e\<rparr>"])
       (simp add: post_reservations_def db_prepare_def stmt_run_def stores_def Let_def)
qed

lemma post_appends:
  assumes "\<not> incomplete b" and "\<not> db_error e"
  shows "\<exists>s' row. post_reservations e b s = (Response 200 (Id_json (js_number (id_row row))), s')
           \<and> s' = s\<lparr>reservations := reservations s @ [row], sqlite_sequence := id_row row\<rparr>
           \<and> stores row b \<and> created row = datetime_now e
           \<and> (\<forall>r \<in> set (reservations s). id_row r < id_row row)"
proof -
  from post_created [OF assms, of s] obtain row where
    "post_reservations e b s =
           (Response 200 (Id_json (js_number (next_rowid s))),
            s\<lparr>reservations := reservations s @ [row], sqlite_sequence := next_rowid s\<rparr>)"
    "stores row b" "id_row row = next_rowid s" "created row = datetime_now e"
    by blast
  then show ?thesis
    by (intro exI [of _ "s\<lparr>reservations := reservations s @ [row], sqlite_sequence := next_rowid s\<rparr>"]
        exI [of _ row]) (simp add: next_rowid_greater)
qed

text \<open>
  When preparing the statement fails, the handler answers nothing, where the handler of
  the query and the callback of \<^verbatim>\<open>stmt.run\<close> answer 500.
\<close>

lemma prepare_error_unanswered:
  "post_reservations (env_ok\<lparr>db_error := True, error_in_prepare := True\<rparr>) june_stay startup
     = (No_response, startup)"
  by (simp add: post_reservations_def june_stay_def env_ok_def falsy_number_def falsy_string_def
      db_prepare_def)

text \<open>
  C5 (amended). The handler answers 400 with an error payload, and leaves the state as it
  was, whenever one of the six fields is falsy: missing, the number 0 or the empty
  string. When every field is present and truthy and the database calls succeed, it
  answers 200 and appends one row, whose id is above every id in the table; the id in the
  answer is that id as a JavaScript number, the id itself as long as it is at most
  \<open>2 ^ 53\<close>. When every field is present and truthy and running the statement fails, it
  answers 500 with an error payload and leaves the state as it was.
\<close>

theorem post_reservations_responses:
  "(roomId_body b = None \<or> name_body b = None \<or> email_body b = None \<or> phone_body b = None
      \<or> checkIn_body b = None \<or> checkOut_body b = None \<longrightarrow> incomplete b)
   \<and> (incomplete b \<longrightarrow>
         post_reservations e b s = (Response 400 (Error_json ''Datos incompletos''), s))
   \<and> (\<not> incomplete b \<and> \<not> db_error e \<longrightarrow>
         (\<exists>s' row. post_reservations e b s = (Response 200 (Id_json (js_number (id_row row))), s')
            \<and> reservations s' = reservations s @ [row]
            \<and> stores row b
            \<and> (\<forall>r \<in> set (reservations s). id_row r < id_row row)
            \<and> (\<bar>id_row row\<bar> \<le> 2 ^ 53 \<longrightarrow> js_number (id_row row) = id_row row)))
   \<and> (\<not> incomplete b \<and> db_error e \<and> \<not> error_in_prepare e \<longrightarrow>
         post_reservations e b s = (Response 500 (Error_json ''Error al guardar la reserva''), s))"
proof -
  have missing: "roomId_body b = None \<or> name_body b = None \<or> email_body b = None
      \<or> phone_body b = None \<or> checkIn_body b = None \<or> checkOut_body b = None \<longrightarrow> incomplete b"
    by (auto simp: incomplete_def falsy_number_def falsy_string_def)
  have created: "\<not> incomplete b \<and> \<not> db_error e \<longrightarrow>
         (\<exists>s' row. post_reservations e b s = (Response 200 (Id_json (js_number (id_row row))), s')
            \<and> reservations s' = reservations s @ [row]
            \<and> stores row b
            \<and> (\<forall>r \<in> set (reservations s). id_row r < id_row row)
            \<and> (\<bar>id_row row\<bar> \<le> 2 ^ 53 \<longrightarrow> js_number (id_row row) = id_row row))"
  proof
    assume "\<not> incomplete b \<and> \<not> db_error e"
    then obtain s' row where
      "post_reservations e b s = (Response 200 (Id_json (js_number (id_row row))), s')"
      "s' = s\<lparr>reservations := reservations s @ [row], sqlite_sequence := id_row row\<rparr>"
      "stores row b" "\<forall>r \<in> set (reservations s). id_row r < id_row row"
      using post_appends [of b e s] by blast
    then show "\<exists>s' row. post_reservations e b s = (Response 200 (Id_json (js_number (id_row row))), s')
            \<and> reservations s' = reservations s @ [row]
            \<and> stores row b
            \<and> (\<forall>r \<in> set (reservations s). id_row r < id_row row)
            \<and> (\<bar>id_row row\<bar> \<le> 2 ^ 53 \<longrightarrow> js_number (id_row row) = id_row row)"
      by (intro exI [of _ s'] exI [of _ row]) (simp add: js_number_exact)
  qed
  from missing created show ?thesis
    by (simp add: post_incomplete post_run_error)
qed

lemma june_complete: "\<not> incomplete june_stay"
  by (simp add: incomplete_def june_stay_def falsy_number_def falsy_string_def)

lemma post_june: "post_reservations env_ok june_stay startup = (Response 200 (Id_json 1), june_server)"
  by (simp add: post_reservations_def june_stay_def startup_def env_ok_def falsy_number_def
      falsy_string_def db_prepare_def stmt_run_def next_rowid_def june_row_def june_server_def
      js_number_small)

theorem post_reservations_responses_witness:
  "email_body (june_stay\<lparr>email_body := None\<rparr>) = None
   \<and> incomplete (june_stay\<lparr>email_body := None\<rparr>)
   \<and> post_reservations env_ok (june_stay\<lparr>email_body := None\<rparr>) startup
       = (Response 400 (Error_json ''Datos incompletos''), startup)
   \<and> \<not> incomplete june_stay \<and> \<not> db_error env_ok
   \<and> (\<exists>s' row. post_reservations env_ok june_stay startup
                   = (Response 200 (Id_json (js_number (id_row row))), s')
            \<and> reservations s' = reservations startup @ [row]
            \<and> stores row june_stay
            \<and> list_all (\<lambda>r. id_row r < id_row row) (reservations startup)
            \<and> \<bar>id_row row\<bar> \<le> 2 ^ 53 \<and> js_number (id_row row) = id_row row)
   \<and> db_error (env_ok\<lparr>db_error := True\<rparr>) \<and> \<not> error_in_prepare (env_ok\<lparr>db_error := True\<rparr>)
   \<and> post_reservations (env_ok\<lparr>db_error := True\<rparr>) june_stay startup
       = (Response 500 (Error_json ''Error al guardar la reserva''), startup)"
proof -
  have ok: "\<not> db_error env_ok" "db_error (env_ok\<lparr>db_error := True\<rparr>)"
      "\<not> error_in_prepare (env_ok\<lparr>db_error := True\<rparr>)"
    by (simp_all add: env_ok_def)
  have missing: "email_body (june_stay\<lparr>email_body := None\<rparr>) = None" by simp
  note t1 = post_reservations_responses [of "june_stay\<lparr>email_body := None\<rparr>" env_ok startup]
  note t2 = post_reservations_responses [of june_stay env_ok startup]
  note t3 = post_reservations_responses [of june_stay "env_ok\<lparr>db_error := True\<rparr>" startup]
  from t1 missing have c1: "incomplete (june_stay\<lparr>email_body := None\<rparr>)"
      "post_reservations env_ok (june_stay\<lparr>email_body := None\<rparr>) startup
         = (Response 400 (Error_json ''Datos incompletos''), startup)"
    by blast+
  from t2 june_complete ok(1) obtain s' row where r:
      "post_reservations env_ok june_stay startup = (Response 200 (Id_json (js_number (id_row row))), s')"
      "reservations s' = reservations startup @ [row]" "stores row june_stay"
      "\<forall>r \<in> set (reservations startup). id_row r < id_row row"
      "\<bar>id_row row\<bar> \<le> 2 ^ 53 \<longrightarrow> js_number (id_row row) = id_row row"
    by blast
  from r(2) have "row = june_row"
    using post_june r(1) by (auto simp: startup_def june_server_def)
  then have small: "\<bar>id_row row\<bar> \<le> 2 ^ 53" by (simp add: june_row_def)
  with r have c2: "\<exists>s' row. post_reservations env_ok june_stay startup
                   = (Response 200 (Id_json (js_number (id_row row))), s')
            \<and> reservations s' = reservations startup @ [row]
            \<and> stores row june_stay
            \<and> list_all (\<lambda>r. id_row r < id_row row) (reservations startup)
            \<and> \<bar>id_row row\<bar> \<le> 2 ^ 53 \<and> js_number (id_row row) = id_row row"
    unfolding list_all_iff by blast
  from t3 june_complete ok(2,3) have c3:
    "post_reservations (env_ok\<lparr>db_error := True\<rparr>) june_stay startup
       = (Response 500 (Error_json ''Error al guardar la reserva''), startup)"
    by blast
  from missing c1 june_complete ok c2 c3 show ?thesis
    by (intro conjI)
qed

lemma js_number_rounds_numeral: "js_number 9007199254740993 = 9007199254740992"
  using js_number_rounds by simp

lemma post_big:
  "post_reservations env_ok june_stay big_server
     = (Response 200 (Id_json 9007199254740992),
        big_server\<lparr>reservations := [big_row, june_row\<lparr>id_row := 9007199254740993\<rparr>],
                    sqlite_sequence := 9007199254740993\<rparr>)"
  by (simp add: post_reservations_def june_stay_def big_server_def big_row_def env_ok_def
      falsy_number_def falsy_string_def db_prepare_def stmt_run_def next_rowid_def june_row_def
      js_number_rounds_numeral)

text \<open>
  A body in which all six fields are present, with \<^verbatim>\<open>roomId\<close> 0, is answered 400 although
  the database would have accepted the row. On a table whose largest id is \<open>2 ^ 53\<close>, the
  id in the answer is \<open>2 ^ 53\<close> while the row appended has the id \<open>2 ^ 53 + 1\<close>.
\<close>

theorem post_zero_room_counterexample:
  "roomId_body (june_stay\<lparr>roomId_body := Some 0\<rparr>) \<noteq> None
   \<and> name_body (june_stay\<lparr>roomId_body := Some 0\<rparr>) \<noteq> None
   \<and> email_body (june_stay\<lparr>roomId_body := Some 0\<rparr>) \<noteq> None
   \<and> phone_body (june_stay\<lparr>roomId_body := Some 0\<rparr>) \<noteq> None
   \<and> checkIn_body (june_stay\<lparr>roomId_body := Some 0\<rparr>) \<noteq> None
   \<and> checkOut_body (june_stay\<lparr>roomId_body := Some 0\<rparr>) \<noteq> None
   \<and> \<not> db_error env_ok
   \<and> post_reservations env_ok (june_stay\<lparr>roomId_body := Some 0\<rparr>) startup
       = (Response 400 (Error_json ''Datos incompletos''), startup)
   \<and> post_reservations env_ok june_stay big_server
       = (Response 200 (Id_json 9007199254740992),
          big_server\<lparr>reservations := [big_row, june_row\<lparr>id_row := 9007199254740993\<rparr>],
                      sqlite_sequence := 9007199254740993\<rparr>)"
  using post_big
  by (simp add: june_stay_def env_ok_def post_reservations_def falsy_number_def)

text \<open>
  Two bodies with all six fields present, for the same room 0 and with overlapping stays:
  both are answered 400 and neither appends a row.
\<close>

theorem double_booking_zero_room_counterexample:
  "roomId_body zero_stay = Some 0 \<and> name_body zero_stay = Some ''Ana''
   \<and> email_body zero_stay = Some ''ana@example.com'' \<and> phone_body zero_stay = Some ''3001234567''
   \<and> checkIn_body zero_stay = Some ''2024-06-01'' \<and> checkOut_body zero_stay = Some ''2024-06-03''
   \<and> roomId_body zero_second_stay = Some 0 \<and> name_body zero_second_stay = Some ''Luis''
   \<and> email_body zero_second_stay = Some ''luis@example.com''
   \<and> phone_body zero_second_stay = Some ''3109876543''
   \<and> checkIn_body zero_second_stay = Some ''2024-06-02''
   \<and> checkOut_body zero_second_stay = Some ''2024-06-04''
   \<and> overlapping ''2024-06-01'' ''2024-06-03'' ''2024-06-02'' ''2024-06-04''
   \<and> \<not> db_error env_ok
   \<and> post_reservations env_ok zero_stay startup
       = (Response 400 (Error_json ''Datos incompletos''), startup)
   \<and> post_reservations env_ok zero_second_stay startup
       = (Response 400 (Error_json ''Datos incompletos''), startup)"
  by (simp add: zero_stay_def zero_second_stay_def june_stay_def second_stay_def env_ok_def
      overlapping_def post_reservations_def falsy_number_def)

text \<open>
  C4 (amended). No overlap check at insert time: two successive requests in which every
  field is present and truthy, for the same room and with overlapping stays, both get 200
  when the database calls succeed; each appends its row, and the two rows have distinct
  ids, the second above the first. The proof uses neither the room nor the dates.
\<close>

theorem double_booking_accepted:
  assumes "\<not> incomplete b1" and "\<not> incomplete b2"
    and "roomId_body b1 = roomId_body b2"
    and "checkIn_body b1 = Some ci1" and "checkOut_body b1 = Some co1"
    and "checkIn_body b2 = Some ci2" and "checkOut_body b2 = Some co2"
    and "overlapping ci1 co1 ci2 co2"
    and "\<not> db_error e1" and "\<not> db_error e2"
  shows "\<exists>s1 s2 row1 row2.
           post_reservations e1 b1 s = (Response 200 (Id_json (js_number (id_row row1))), s1)
         \<and> post_reservations e2 b2 s1 = (Response 200 (Id_json (js_number (id_row row2))), s2)
         \<and> reservations s1 = reservations s @ [row1]
         \<and> reservations s2 = reservations s @ [row1, row2]
         \<and> stores row1 b1 \<and> stores row2 b2
         \<and> id_row row1 < id_row row2 \<and> id_row row1 \<noteq> id_row row2"
proof -
  obtain s1 row1 where p1:
      "post_reservations e1 b1 s = (Response 200 (Id_json (js_number (id_row row1))), s1)"
      and s1: "s1 = s\<lparr>reservations := reservations s @ [row1], sqlite_sequence := id_row row1\<rparr>"
      and r1: "stores row1 b1"
    using post_appends [OF assms(1) assms(9), of s] by blast
  obtain s2 row2 where p2:
      "post_reservations e2 b2 s1 = (Response 200 (Id_json (js_number (id_row row2))), s2)"
      and s2: "s2 = s1\<lparr>reservations := reservations s1 @ [row2], sqlite_sequence := id_row row2\<rparr>"
      and r2: "stores row2 b2"
      and above: "\<forall>r \<in> set (reservations s1). id_row r < id_row row2"
    using post_appends [OF assms(2) assms(10), of s1] by blast
  from s1 above have "id_row row1 < id_row row2" by simp
  with p1 p2 s1 s2 r1 r2 show ?thesis
    by (intro exI [of _ s1] exI [of _ s2] exI [of _ row1] exI [of _ row2]) simp
qed

lemma second_complete: "\<not> incomplete second_stay"
  by (simp add: incomplete_def second_stay_def falsy_number_def falsy_string_def)

theorem double_booking_accepted_witness:
  "\<not> incomplete june_stay \<and> \<not> incomplete second_stay
   \<and> roomId_body june_stay = roomId_body second_stay
   \<and> checkIn_body june_stay = Some ''2024-06-01'' \<and> checkOut_body june_stay = Some ''2024-06-03''
   \<and> checkIn_body second_stay = Some ''2024-06-02'' \<and> checkOut_body second_stay = Some ''2024-06-04''
   \<and> overlapping ''2024-06-01'' ''2024-06-03'' ''2024-06-02'' ''2024-06-04''
   \<and> \<not> db_error env_ok
   \<and> (\<exists>s1 s2 row1 row2.
           post_reservations env_ok june_stay startup
             = (Response 200 (Id_json (js_number (id_row row1))), s1)
         \<and> post_reservations env_ok second_stay s1
             = (Response 200 (Id_json (js_number (id_row row2))), s2)
         \<and> reservations s1 = reservations startup @ [row1]
         \<and> reservations s2 = reservations startup @ [row1, row2]
         \<and> stores row1 june_stay \<and> stores row2 second_stay
         \<and> id_row row1 < id_row row2 \<and> id_row row1 \<noteq> id_row row2)"
proof -
  have a: "checkIn_body june_stay = Some ''2024-06-01''" "checkOut_body june_stay = Some ''2024-06-03''"
    by (simp_all add: june_stay_def)
  have b: "checkIn_body second_stay = Some ''2024-06-02''" "checkOut_body second_stay = Some ''2024-06-04''"
    by (simp_all add: second_stay_def)
  have r: "roomId_body june_stay = roomId_body second_stay"
    by (simp add: june_stay_def second_stay_def)
  have ov: "overlapping ''2024-06-01'' ''2024-06-03'' ''2024-06-02'' ''2024-06-04''"
    by (simp add: overlapping_def)
  have ok: "\<not> db_error env_ok"
    by (simp add: env_ok_def)
  from double_booking_accepted [OF june_complete second_complete r a b ov ok ok, of startup]
    june_complete second_complete r a b ov ok
  show ?thesis by blast
qed

section \<open>Identifiers\<close>

lemma get_reservations_payload:
  "get_reservations e q s = (Response st p, s') \<Longrightarrow> s' = s \<and> (\<forall>k. p \<noteq> Id_json k)"
  by (auto simp: get_reservations_def split: prod.splits sum.splits)

lemma post_reservations_id:
  assumes "post_reservations e b s = (Response st (Id_json k), s')"
  shows "\<exists>row. reservations s' = reservations s @ [row]
           \<and> (\<forall>r \<in> set (reservations s). id_row r < id_row row) \<and> k = js_number (id_row row)"
proof (cases "incomplete b")
  case True
  with assms show ?thesis
    by (simp add: post_incomplete)
next
  case False
  show ?thesis
  proof (cases "db_error e")
    case True
    with \<open>\<not> incomplete b\<close> assms show ?thesis
      by (cases "error_in_prepare e") (simp_all add: post_prepare_error post_run_error)
  next
    case False
    with post_appends [OF \<open>\<not> incomplete b\<close>, of e s] assms show ?thesis
      by auto
  qed
qed

lemma app_id:
  assumes "app e req s = (Response st (Id_json k), s')"
  shows "\<exists>row. reservations s' = reservations s @ [row]
           \<and> (\<forall>r \<in> set (reservations s). id_row r < id_row row) \<and> k = js_number (id_row row)"
proof -
  from assms have "post_reservations e (body req) s = (Response st (Id_json k), s')"
    by (auto simp: app_def get_rooms_def dest: get_reservations_payload split: if_splits)
  then show ?thesis by (rule post_reservations_id)
qed

lemma serve_alive:
  "fst (app e req s) \<noteq> No_response \<Longrightarrow>
   serve s ((e, req) # rest) =
     (fst (app e req s) # fst (serve (snd (app e req s)) rest), snd (serve (snd (app e req s)) rest))"
  by (cases "app e req s"; cases "serve (snd (app e req s)) rest") simp

lemma serve_exited:
  "fst (app e req s) = No_response \<Longrightarrow>
   serve s ((e, req) # rest) = (map (\<lambda>x. No_response) ((e, req) # rest), snd (app e req s))"
  by (cases "app e req s") simp

lemma serve_nth:
  "i < length reqs \<Longrightarrow> fst (serve s reqs) ! i \<noteq> No_response \<Longrightarrow>
   fst (serve s reqs) ! i = fst (app (fst (reqs ! i)) (snd (reqs ! i)) (snd (serve s (take i reqs))))
   \<and> snd (serve s (take (Suc i) reqs))
       = snd (app (fst (reqs ! i)) (snd (reqs ! i)) (snd (serve s (take i reqs))))"
proof (induction reqs arbitrary: s i)
  case Nil
  then show ?case by simp
next
  case (Cons x reqs)
  obtain e req where x: "x = (e, req)" by (cases x)
  show ?case
  proof (cases "fst (app e req s) = No_response")
    case True
    from Cons.prems(1) have "map (\<lambda>x. No_response) (x # reqs) ! i = No_response"
      by (simp only: nth_map length_map)
    with True Cons.prems(2) x show ?thesis
      by (simp only: serve_exited fst_conv)
  next
    case False
    note alive = serve_alive [OF False]
    show ?thesis
    proof (cases i)
      case 0
      with x show ?thesis by (simp add: alive del: serve.simps(2))
    next
      case (Suc j)
      with Cons.prems x have "j < length reqs" and "fst (serve (snd (app e req s)) reqs) ! j \<noteq> No_response"
        by (simp_all add: alive del: serve.simps(2))
      from Cons.IH [OF this] x Suc show ?thesis
        by (simp only: alive take_Suc_Cons nth_Cons_Suc fst_conv snd_conv)
    qed
  qed
qed

text \<open>
  On a table whose largest id is \<open>2 ^ 53\<close> the insert is answered with the id \<open>2 ^ 53\<close>,
  which is the id of the row that was there before.
\<close>

theorem response_id_counterexample:
  "reservations big_server = [big_row] \<and> id_row big_row = 9007199254740992
   \<and> serve big_server [(env_ok, post_request june_stay)]
       = ([Response 200 (Id_json 9007199254740992)],
          big_server\<lparr>reservations := [big_row, june_row\<lparr>id_row := 9007199254740993\<rparr>],
                      sqlite_sequence := 9007199254740993\<rparr>)"
  using post_big
  by (simp add: app_def post_request_def big_server_def big_row_def)

text \<open>
  C7 (amended). Ids are assigned by the store and ascend strictly: in every run of
  requests from every state, when the request at position \<open>i\<close> is answered with an id
  \<open>k\<close>, the request appended one row, whose id is above the id of every row that was in
  the table just before that request (so it differs from all of them); \<open>k\<close> is that id as
  a JavaScript number, and is the id itself, above all the earlier ones, when the id is
  at most \<open>2 ^ 53\<close>.
\<close>

theorem ids_strictly_ascending:
  assumes "i < length reqs"
    and "fst (serve s reqs) ! i = Response st (Id_json k)"
  shows "\<exists>row. reservations (snd (serve s (take (Suc i) reqs)))
                  = reservations (snd (serve s (take i reqs))) @ [row]
           \<and> (\<forall>r \<in> set (reservations (snd (serve s (take i reqs)))). id_row r < id_row row)
           \<and> k = js_number (id_row row)
           \<and> (\<bar>id_row row\<bar> \<le> 2 ^ 53 \<longrightarrow>
                k = id_row row
                \<and> (\<forall>r \<in> set (reservations (snd (serve s (take i reqs)))). id_row r < k))"
proof -
  let ?e = "fst (reqs ! i)" and ?req = "snd (reqs ! i)" and ?s = "snd (serve s (take i reqs))"
  from assms(2) have "fst (serve s reqs) ! i \<noteq> No_response" by simp
  from serve_nth [OF assms(1) this] assms(2)
  have "app ?e ?req ?s = (Response st (Id_json k), snd (serve s (take (Suc i) reqs)))"
    by (simp add: prod_eq_iff)
  from app_id [OF this] obtain row where
    "reservations (snd (serve s (take (Suc i) reqs))) = reservations ?s @ [row]"
    "\<forall>r \<in> set (reservations ?s). id_row r < id_row row" "k = js_number (id_row row)"
    by blast
  then show ?thesis
    by (intro exI [of _ row]) (simp add: js_number_exact)
qed

lemma serve_one:
  "serve june_server [(env_ok, post_request second_stay)]
   = ([Response 200 (Id_json 2)],
      june_server\<lparr>reservations := [june_row,
          \<lparr>id_row = 2, roomId = 1, name = ''Luis'', email = ''luis@example.com'', phone = ''3109876543'',
            checkIn = ''2024-06-02'', checkOut = ''2024-06-04'', created = ''2024-05-20 12:00:00''\<rparr>],
        sqlite_sequence := 2\<rparr>)"
  by (simp add: june_server_def env_ok_def post_request_def second_stay_def app_def
      post_reservations_def falsy_number_def falsy_string_def db_prepare_def stmt_run_def
      next_rowid_def june_row_def js_number_small)

lemma serve_two:
  "serve june_server [(env_ok, post_request second_stay), (env_ok, post_request june_stay)]
   = ([Response 200 (Id_json 2), Response 200 (Id_json 3)],
      june_server\<lparr>reservations := [june_row,
          \<lparr>id_row = 2, roomId = 1, name = ''Luis'', email = ''luis@example.com'', phone = ''3109876543'',
            checkIn = ''2024-06-02'', checkOut = ''2024-06-04'', created = ''2024-05-20 12:00:00''\<rparr>,
          june_row\<lparr>id_row := 3\<rparr>], sqlite_sequence := 3\<rparr>)"
  by (simp add: june_server_def env_ok_def post_request_def second_stay_def june_stay_def app_def
      post_reservations_def falsy_number_def falsy_string_def db_prepare_def stmt_run_def
      next_rowid_def june_row_def js_number_small)

theorem ids_strictly_ascending_witness:
  "1 < length [(env_ok, post_request second_stay), (env_ok, post_request june_stay)]
   \<and> fst (serve june_server [(env_ok, post_request second_stay), (env_ok, post_request june_stay)]) ! 1
       = Response 200 (Id_json 3)
   \<and> (\<exists>row. reservations (snd (serve june_server
          (take (Suc 1) [(env_ok, post_request second_stay), (env_ok, post_request june_stay)])))
        = reservations (snd (serve june_server
          (take 1 [(env_ok, post_request second_stay), (env_ok, post_request june_stay)]))) @ [row]
        \<and> list_all (\<lambda>r. id_row r < id_row row) (reservations (snd (serve june_server
          (take 1 [(env_ok, post_request second_stay), (env_ok, post_request june_stay)]))))
        \<and> 3 = js_number (id_row row)
        \<and> \<bar>id_row row\<bar> \<le> 2 ^ 53
        \<and> 3 = id_row row
        \<and> list_all (\<lambda>r. id_row r < 3) (reservations (snd (serve june_server
          (take 1 [(env_ok, post_request second_stay), (env_ok, post_request june_stay)])))))"
proof -
  let ?reqs = "[(env_ok, post_request second_stay), (env_ok, post_request june_stay)]"
  have l: "1 < length ?reqs"
    by simp
  have r: "fst (serve june_server ?reqs) ! 1 = Response 200 (Id_json 3)"
    by (simp only: serve_two) simp
  have t1: "take 1 ?reqs = [(env_ok, post_request second_stay)]" and t2: "take (Suc 1) ?reqs = ?reqs"
    by simp_all
  from ids_strictly_ascending [OF l r] obtain row where row:
    "reservations (snd (serve june_server (take (Suc 1) ?reqs)))
       = reservations (snd (serve june_server (take 1 ?reqs))) @ [row]"
    "\<forall>r \<in> set (reservations (snd (serve june_server (take 1 ?reqs)))). id_row r < id_row row"
    "3 = js_number (id_row row)"
    "\<bar>id_row row\<bar> \<le> 2 ^ 53 \<longrightarrow> 3 = id_row row
       \<and> (\<forall>r \<in> set (reservations (snd (serve june_server (take 1 ?reqs)))). id_row r < 3)"
    by blast
  from row(1) have "row = june_row\<lparr>id_row := 3\<rparr>"
    unfolding t1 t2 serve_one serve_two by simp
  then have "\<bar>id_row row\<bar> \<le> 2 ^ 53" by simp
  with row l r show ?thesis
    unfolding list_all_iff by blast
qed

section \<open>The catalog\<close>

lemma app_catalog: "catalog (snd (app e req s)) = catalog s"
  by (auto simp: app_def get_rooms_def get_reservations_def post_reservations_def stmt_run_def Let_def
      split: prod.splits sum.splits option.splits)

lemma serve_catalog: "catalog (snd (serve s reqs)) = catalog s"
proof (induction reqs arbitrary: s)
  case Nil
  then show ?case by simp
next
  case (Cons x reqs)
  obtain e req where x: "x = (e, req)" by (cases x)
  show ?case
  proof (cases "fst (app e req s) = No_response")
    case True
    from app_catalog [of e req s] x show ?thesis
      by (simp only: serve_exited [OF True] snd_conv)
  next
    case False
    from Cons.IH [of "snd (app e req s)"] app_catalog [of e req s] x show ?thesis
      by (simp only: serve_alive [OF False] snd_conv)
  qed
qed

lemma rooms_ids: "map id_room rooms = [1, 2, 3, 4, 5, 6, 7, 8, 9, 10, 11, 12]"
  by (simp add: rooms_def)

lemma rooms_fan: "\<forall>r \<in> set (take 6 rooms). \<not> ac r \<and> price r = 30000"
  by (simp add: rooms_def)

lemma rooms_ac: "\<forall>r \<in> set (drop 6 rooms). ac r \<and> price r = 60000"
  by (simp add: rooms_def)

lemma rooms_capacity: "\<forall>r \<in> set rooms. capacity r = 2"
  by (simp add: rooms_def)

text \<open>
  C9. The rooms endpoint does not depend on the reservation store and no request changes
  the list: from every state of a server started with the catalog, after every run of
  requests, \<^verbatim>\<open>GET /api/rooms\<close> answers 200 with the same list of 12 rooms, with ids 1 to
  12, the first six without air conditioning at 30000, the last six with it at 60000,
  all of capacity 2.
\<close>

theorem catalog_is_constant:
  assumes "catalog s = rooms"
  shows "get_rooms (snd (serve s reqs)) = (Response 200 (Rooms_json rooms), snd (serve s reqs))
         \<and> app e \<lparr>http_method = GET, path = ''/api/rooms'', query = q, body = b\<rparr> (snd (serve s reqs))
             = (Response 200 (Rooms_json rooms), snd (serve s reqs))
         \<and> length rooms = 12
         \<and> map id_room rooms = [1, 2, 3, 4, 5, 6, 7, 8, 9, 10, 11, 12]
         \<and> (\<forall>r \<in> set (take 6 rooms). \<not> ac r \<and> price r = 30000)
         \<and> (\<forall>r \<in> set (drop 6 rooms). ac r \<and> price r = 60000)
         \<and> (\<forall>r \<in> set rooms. capacity r = 2)"
proof -
  from assms have "catalog (snd (serve s reqs)) = rooms"
    by (simp add: serve_catalog)
  then have "get_rooms (snd (serve s reqs)) = (Response 200 (Rooms_json rooms), snd (serve s reqs))"
    by (simp add: get_rooms_def)
  moreover have "length rooms = 12"
    by (simp add: rooms_def)
  ultimately show ?thesis
    using rooms_ids rooms_fan rooms_ac rooms_capacity by (simp add: app_def)
qed


theorem catalog_is_constant_witness:
  "catalog june_server = rooms
   \<and> app env_ok \<lparr>http_method = GET, path = ''/api/rooms'', query = no_query, body = no_body\<rparr>
         (snd (serve june_server [(env_ok, post_request second_stay)]))
       = (Response 200 (Rooms_json rooms), snd (serve june_server [(env_ok, post_request second_stay)]))
   \<and> list_all (\<lambda>r. \<not> ac r \<and> price r = 30000) (take 6 rooms)
   \<and> list_all (\<lambda>r. ac r \<and> price r = 60000) (drop 6 rooms)
   \<and> list_all (\<lambda>r. capacity r = 2) rooms"
proof -
  have c: "catalog june_server = rooms"
    by (simp add: june_server_def)
  from catalog_is_constant [OF c, of "[(env_ok, post_request second_stay)]" env_ok no_query no_body] c
  show ?thesis unfolding list_all_iff by blast
qed

section \<open>Inserting and querying\<close>

text \<open>
  C3. Round trip. A request that passes the guard, for a stay with \<open>checkIn < checkOut\<close>,
  is answered 200 when the database call succeeds and appends its row. A later query
  whose range \<open>[lo, hi)\<close> contains the stay (\<open>lo \<le> checkIn\<close> and \<open>checkOut \<le> hi\<close>) returns
  that row. A later query with a valid range \<open>[lo', hi')\<close> (both parameters non-empty,
  \<open>lo' < hi'\<close>) that is disjoint from the stay (\<open>hi' \<le> checkIn\<close> or \<open>checkOut \<le> lo'\<close>)
  returns no row with the id of that row.
\<close>

theorem insert_then_query:
  assumes "\<not> incomplete b" and "checkIn_body b = Some ci" and "checkOut_body b = Some co"
    and "ci < co" and "\<not> db_error e1" and "\<not> db_error e2"
  shows "\<exists>s1 row. post_reservations e1 b s = (Response 200 (Id_json (js_number (id_row row))), s1)
           \<and> reservations s1 = reservations s @ [row] \<and> stores row b
           \<and> (lo \<le> ci \<and> co \<le> hi \<longrightarrow>
                (\<exists>rows. get_reservations e2 \<lparr>checkIn_query = Some lo, checkOut_query = Some hi\<rparr> s1
                          = (Response 200 (Rows_json rows), s1) \<and> row \<in> set rows))
           \<and> (lo' \<noteq> [] \<and> lo' < hi' \<and> (hi' \<le> ci \<or> co \<le> lo') \<longrightarrow>
                (\<exists>rows. get_reservations e2 \<lparr>checkIn_query = Some lo', checkOut_query = Some hi'\<rparr> s1
                          = (Response 200 (Rows_json rows), s1)
                   \<and> (\<forall>r \<in> set rows. id_row r \<noteq> id_row row)))"
proof -
  obtain s1 row where p:
      "post_reservations e1 b s = (Response 200 (Id_json (js_number (id_row row))), s1)"
      and s1: "s1 = s\<lparr>reservations := reservations s @ [row], sqlite_sequence := id_row row\<rparr>"
      and r: "stores row b"
      and above: "\<forall>r \<in> set (reservations s). id_row r < id_row row"
    using post_appends [OF assms(1) assms(5), of s] by blast
  from r assms(2,3) have dates: "checkIn row = ci" "checkOut row = co"
    by (simp_all add: stores_def)
  have inside: "\<exists>rows. get_reservations e2 \<lparr>checkIn_query = Some lo, checkOut_query = Some hi\<rparr> s1
                  = (Response 200 (Rows_json rows), s1) \<and> row \<in> set rows"
    if "lo \<le> ci \<and> co \<le> hi"
  proof (cases "lo = [] \<or> hi = []")
    case True
    then have "get_reservations e2 \<lparr>checkIn_query = Some lo, checkOut_query = Some hi\<rparr> s1
        = (Response 200 (Rows_json (reservations s1)), s1)"
      using assms(6) by (auto simp: get_reservations_def)
    then show ?thesis by (simp add: s1)
  next
    case False
    from that assms(4) have "\<not> (co \<le> lo \<or> hi \<le> ci)" by auto
    with dates have "overlap_where lo hi row" by (simp add: overlap_where_def)
    with False assms(6) show ?thesis
      by (simp add: get_reservations_filtered s1)
  qed
  have outside: "\<exists>rows. get_reservations e2 \<lparr>checkIn_query = Some lo', checkOut_query = Some hi'\<rparr> s1
                  = (Response 200 (Rows_json rows), s1) \<and> (\<forall>r \<in> set rows. id_row r \<noteq> id_row row)"
    if "lo' \<noteq> [] \<and> lo' < hi' \<and> (hi' \<le> ci \<or> co \<le> lo')"
  proof -
    from that have ne: "lo' \<noteq> []" "hi' \<noteq> []" by auto
    from that dates have "\<not> overlap_where lo' hi' row" by (auto simp: overlap_where_def)
    moreover from above have "\<forall>r \<in> set (reservations s). id_row r \<noteq> id_row row"
      by fastforce
    ultimately show ?thesis using ne assms(6)
      by (simp add: get_reservations_filtered s1)
  qed
  from p r inside outside show ?thesis
    by (intro exI [of _ s1] exI [of _ row]) (simp add: s1)
qed

theorem insert_then_query_witness:
  "\<not> incomplete june_stay \<and> checkIn_body june_stay = Some ''2024-06-01''
   \<and> checkOut_body june_stay = Some ''2024-06-03'' \<and> ''2024-06-01'' < ''2024-06-03''
   \<and> \<not> db_error env_ok
   \<and> (''2024-05-30'' \<le> ''2024-06-01'' \<and> ''2024-06-03'' \<le> ''2024-06-10'')
   \<and> (''2024-06-03'' \<noteq> [] \<and> ''2024-06-03'' < ''2024-06-05''
        \<and> (''2024-06-05'' \<le> ''2024-06-01'' \<or> ''2024-06-03'' \<le> ''2024-06-03''))
   \<and> (\<exists>s1 row. post_reservations env_ok june_stay startup
                   = (Response 200 (Id_json (js_number (id_row row))), s1)
           \<and> reservations s1 = reservations startup @ [row] \<and> stores row june_stay
           \<and> (\<exists>rows. get_reservations env_ok
                         \<lparr>checkIn_query = Some ''2024-05-30'', checkOut_query = Some ''2024-06-10''\<rparr> s1
                       = (Response 200 (Rows_json rows), s1) \<and> row \<in> set rows)
           \<and> (\<exists>rows. get_reservations env_ok
                         \<lparr>checkIn_query = Some ''2024-06-03'', checkOut_query = Some ''2024-06-05''\<rparr> s1
                       = (Response 200 (Rows_json rows), s1)
                \<and> (\<forall>r \<in> set rows. id_row r \<noteq> id_row row)))"
proof -
  have a: "checkIn_body june_stay = Some ''2024-06-01''" "checkOut_body june_stay = Some ''2024-06-03''"
    by (simp_all add: june_stay_def)
  have lt: "''2024-06-01'' < ''2024-06-03''" by simp
  have ok: "\<not> db_error env_ok" by (simp add: env_ok_def)
  have inside: "''2024-05-30'' \<le> ''2024-06-01'' \<and> ''2024-06-03'' \<le> ''2024-06-10''" by simp
  have outside: "''2024-06-03'' \<noteq> [] \<and> ''2024-06-03'' < ''2024-06-05''
        \<and> (''2024-06-05'' \<le> ''2024-06-01'' \<or> ''2024-06-03'' \<le> ''2024-06-03'')" by simp
  from insert_then_query [OF june_complete a lt ok ok, of startup "''2024-05-30''" "''2024-06-10''"
      "''2024-06-03''" "''2024-06-05''"] june_complete a lt ok inside outside
  show ?thesis by blast
qed

section \<open>Date validation and the availability refresh\<close>

text \<open>
  C8. When the check-out date is not after the check-in date (equal dates included), the
  refresh paints the cell of every room with the invalid-dates text and the class
  \<^verbatim>\<open>availability unavailable\<close>, sends no request and leaves the server as it was, and
  the modal is not opened: the user gets an alert.
\<close>

theorem inverted_dates_rejected:
  assumes "date_le checkOutDate checkInDate"
  shows "updateAvailability e srv (Some checkInDate) (Some checkOutDate)
           = (map (\<lambda>room. (id_room room, \<lparr>textContent = ''Fechas no v'' @ a_acute @ ''lidas'',
                                           className = ''availability unavailable''\<rparr>)) rooms,
              [], srv)
         \<and> openReservationModal formatCOP (Some checkInDate) (Some checkOutDate) room_id
             = Alert (''Por favor seleccione una fecha de entrada y salida v'' @ a_acute
                      @ ''lida antes de reservar.'')"
  using assms by (simp add: updateAvailability_def paint_all_def openReservationModal_def)

theorem inverted_dates_rejected_witness:
  "date_le \<lparr>year = 2024, month = 6, day = 3\<rparr> \<lparr>year = 2024, month = 6, day = 3\<rparr>
   \<and> date_le \<lparr>year = 2024, month = 6, day = 1\<rparr> \<lparr>year = 2024, month = 6, day = 3\<rparr>
   \<and> updateAvailability env_ok june_server (Some \<lparr>year = 2024, month = 6, day = 3\<rparr>)
         (Some \<lparr>year = 2024, month = 6, day = 3\<rparr>)
       = (map (\<lambda>room. (id_room room, \<lparr>textContent = ''Fechas no v'' @ a_acute @ ''lidas'',
                                       className = ''availability unavailable''\<rparr>)) rooms,
          [], june_server)
   \<and> snd (updateAvailability env_ok june_server (Some \<lparr>year = 2024, month = 6, day = 3\<rparr>)
         (Some \<lparr>year = 2024, month = 6, day = 1\<rparr>)) = ([], june_server)
   \<and> openReservationModal (\<lambda>v. ''$'') (Some \<lparr>year = 2024, month = 6, day = 3\<rparr>)
         (Some \<lparr>year = 2024, month = 6, day = 3\<rparr>) 1
       = Alert (''Por favor seleccione una fecha de entrada y salida v'' @ a_acute
                @ ''lida antes de reservar.'')"
  using inverted_dates_rejected [of "\<lparr>year = 2024, month = 6, day = 3\<rparr>" "\<lparr>year = 2024, month = 6, day = 3\<rparr>"
      env_ok june_server "\<lambda>v. ''$''" 1]
    inverted_dates_rejected [of "\<lparr>year = 2024, month = 6, day = 1\<rparr>" "\<lparr>year = 2024, month = 6, day = 3\<rparr>"
      env_ok june_server "\<lambda>v. ''$''" 1]
  by (simp add: date_le_def)

text \<open>
  With a check-out date after the check-in date the refresh never reaches the branch that
  paints a room as available: its request goes to the path \<^verbatim>\<open>/\<close>, for which the
  application has no route, the answer is not JSON, and the \<^verbatim>\<open>catch\<close> block paints every
  cell with \<^verbatim>\<open>Error\<close>.
\<close>

lemma refresh_paints_error:
  assumes "\<not> date_le checkOutDate checkInDate"
  shows "fst (updateAvailability e srv (Some checkInDate) (Some checkOutDate))
           = paint_all ''Error'' ''availability unavailable''"
  using assms
  by (simp add: updateAvailability_def availability_request_def app_def)

text \<open>
  C2. The scenario of the availability view on the code: after the booking of room 1 from
  2024-06-01 to 2024-06-03 is stored, the refresh for 2024-06-03 to 2024-06-05 sends its
  request to the path \<^verbatim>\<open>/\<close> and paints every cell, that of room 1 included, with \<^verbatim>\<open>Error\<close>
  and the class \<^verbatim>\<open>availability unavailable\<close>, although the stored row does not pass the
  overlap test for that window.
\<close>

theorem refresh_after_booking:
  "post_reservations env_ok june_stay startup = (Response 200 (Id_json 1), june_server)
   \<and> \<not> overlap_where (toISOString \<lparr>year = 2024, month = 6, day = 3\<rparr>)
          (toISOString \<lparr>year = 2024, month = 6, day = 5\<rparr>) june_row
   \<and> path (availability_request \<lparr>year = 2024, month = 6, day = 3\<rparr> \<lparr>year = 2024, month = 6, day = 5\<rparr>) = ''/''
   \<and> updateAvailability env_ok june_server (Some \<lparr>year = 2024, month = 6, day = 3\<rparr>)
         (Some \<lparr>year = 2024, month = 6, day = 5\<rparr>)
       = (map (\<lambda>room. (id_room room, \<lparr>textContent = ''Error'', className = ''availability unavailable''\<rparr>)) rooms,
          [availability_request \<lparr>year = 2024, month = 6, day = 3\<rparr> \<lparr>year = 2024, month = 6, day = 5\<rparr>],
          june_server)"
proof -
  have "post_reservations env_ok june_stay startup = (Response 200 (Id_json 1), june_server)"
    by (rule post_june)
  moreover have "toISOString \<lparr>year = 2024, month = 6, day = 3\<rparr> = ''2024-06-03T00:00:00.000Z''"
    by code_simp
  then have "\<not> overlap_where (toISOString \<lparr>year = 2024, month = 6, day = 3\<rparr>)
          (toISOString \<lparr>year = 2024, month = 6, day = 5\<rparr>) june_row"
    by (simp add: overlap_where_def june_row_def)
  moreover have "updateAvailability env_ok june_server (Some \<lparr>year = 2024, month = 6, day = 3\<rparr>)
         (Some \<lparr>year = 2024, month = 6, day = 5\<rparr>)
       = (map (\<lambda>room. (id_room room, \<lparr>textContent = ''Error'', className = ''availability unavailable''\<rparr>)) rooms,
          [availability_request \<lparr>year = 2024, month = 6, day = 3\<rparr> \<lparr>year = 2024, month = 6, day = 5\<rparr>],
          june_server)"
    by (simp add: updateAvailability_def date_le_def env_ok_def availability_request_def app_def paint_all_def)
  ultimately show ?thesis
    by (simp add: availability_request_def)
qed


text \<open>
  The availability view as the specification describes it is what the \<^verbatim>\<open>try\<close> block computes from
  the answer of the reservations query: on the intended route a room is painted available
  exactly when no stored row for that room passes the overlap test, and the scenario comes
  out as the specification says.
\<close>

lemma map_of_keyed:
  "distinct (map g xs) \<Longrightarrow> x \<in> set xs \<Longrightarrow> map_of (map (\<lambda>x. (g x, h x)) xs) (g x) = Some (h x)"
  by (induction xs) (auto simp: image_iff)

lemma distinct_room_ids: "distinct (map id_room rooms)"
  by (simp add: rooms_ids)

lemma paint_rows:
  assumes "room \<in> set rooms"
  shows "map_of (paint_response (Response st (Rows_json rs))) (id_room room)
           = Some (if \<exists>res \<in> set rs. roomId res = id_room room then unavailable_cell else available_cell)"
proof -
  have eq: "paint_response (Response st (Rows_json rs))
      = map (\<lambda>room. (id_room room,
               if \<exists>res \<in> set rs. roomId res = id_room room then unavailable_cell else available_cell)) rooms"
    by (simp add: Let_def list_ex_iff available_cell_def unavailable_cell_def)
  show ?thesis
    unfolding eq by (rule map_of_keyed [OF distinct_room_ids assms])
qed

lemma toISOString_nonempty: "toISOString d \<noteq> []"
  by (simp add: toISOString_def)

lemma intended_refresh:
  assumes "room \<in> set rooms" and "\<not> db_error e"
  shows "(map_of (paint_response (fst (app e (intended_request ci co) srv))) (id_room room) = Some available_cell)
           = (\<not> (\<exists>r \<in> set (reservations srv).
                    roomId r = id_room room \<and> overlap_where (toISOString ci) (toISOString co) r))"
proof -
  from assms(2) have "app e (intended_request ci co) srv
      = (Response 200 (Rows_json (filter (overlap_where (toISOString ci) (toISOString co)) (reservations srv))), srv)"
    by (simp add: app_def intended_request_def availability_request_def get_reservations_filtered
        toISOString_nonempty)
  then have resp: "fst (app e (intended_request ci co) srv)
      = Response 200 (Rows_json (filter (overlap_where (toISOString ci) (toISOString co)) (reservations srv)))"
    by simp
  show ?thesis
    unfolding resp paint_rows [OF assms(1)]
    by (auto simp: available_cell_def unavailable_cell_def)
qed

lemma intended_scenario:
  "map_of (paint_response (fst (app env_ok
       (intended_request \<lparr>year = 2024, month = 6, day = 2\<rparr> \<lparr>year = 2024, month = 6, day = 4\<rparr>) june_server))) 1
     = Some unavailable_cell"
  "map_of (paint_response (fst (app env_ok
       (intended_request \<lparr>year = 2024, month = 6, day = 3\<rparr> \<lparr>year = 2024, month = 6, day = 5\<rparr>) june_server))) 1
     = Some available_cell"
  by code_simp+

section \<open>Comparing dates as strings\<close>

subsection \<open>Zero-padded numbers and the date format\<close>








lemma less_append_nonempty:
  fixes xs :: "'a::linorder list"
  shows "s \<noteq> [] \<Longrightarrow> xs < xs @ s"
  by (induction xs) (auto simp: neq_Nil_conv)














lemma date_value_less_toISOString: "date_value d < toISOString d"
  unfolding toISOString_def by (rule less_append_nonempty) simp

















text \<open>
  At the other end of the window the mixed forms change the answer: a stay that begins on
  the queried check-out day does not pass \<^verbatim>\<open>checkIn >= ?\<close>.
\<close>

lemma mixed_forms_checkIn:
  "checkIn r = date_value b \<Longrightarrow> \<not> checkIn r \<ge> toISOString b"
  using date_value_less_toISOString [of b] by simp

end
